theory Spec2Isabelle
  imports Main "HOL-Library.Sublist"
begin

section \<open>Strings and pattern replacement\<close>

text \<open>
  Strings of the program are modelled as \<open>string\<close>, lists of 8-bit characters: the
  texts of compiled matchers, paths, method names and middleware names are ASCII. The
  backslash cannot be written inside a string literal, so it has a name of its own.
\<close>

abbreviation BS :: char where
  "BS \<equiv> CHR 0x5C"

text \<open>\<open>s.startsWith(p)\<close>, \<open>s.endsWith(p)\<close> and \<open>s.includes(p)\<close>.\<close>

definition startsWith :: "string \<Rightarrow> string \<Rightarrow> bool" where
  "startsWith s p = (take (length p) s = p)"

definition endsWith :: "string \<Rightarrow> string \<Rightarrow> bool" where
  "endsWith s p = (length p \<le> length s \<and> drop (length s - length p) s = p)"

fun includesStr :: "string \<Rightarrow> string \<Rightarrow> bool" where
  "includesStr [] p = (p = [])"
| "includesStr (c # cs) p = (startsWith (c # cs) p \<or> includesStr cs p)"

text \<open>
  \<open>s.replace(re, rep)\<close> for the patterns of this program. A pattern is given by its
  matcher: applied to the rest of the subject at some position, the matcher returns the
  length of the match that starts exactly there, if there is one. None of the patterns
  below matches the empty string, and none needs backtracking: a negated class followed
  by the one character it excludes has a single way to match.

  \<open>replaceAll\<close> is the replacement under the \<open>g\<close> flag: the subject is scanned from the
  left, a match is replaced and the scan resumes behind it, an unmatched character is
  kept. \<open>replaceFirst\<close> replaces the leftmost match only.
\<close>

type_synonym matcher = "string \<Rightarrow> nat option"

fun replaceAll :: "matcher \<Rightarrow> string \<Rightarrow> string \<Rightarrow> string" where
  "replaceAll m rep [] = []"
| "replaceAll m rep (c # cs) =
     (case m (c # cs) of
        None \<Rightarrow> c # replaceAll m rep cs
      | Some n \<Rightarrow> rep @ replaceAll m rep (drop (n - 1) cs))"

fun replaceFirst :: "matcher \<Rightarrow> string \<Rightarrow> string \<Rightarrow> string" where
  "replaceFirst m rep [] = []"
| "replaceFirst m rep (c # cs) =
     (case m (c # cs) of
        None \<Rightarrow> c # replaceFirst m rep cs
      | Some n \<Rightarrow> rep @ drop n (c # cs))"

text \<open>A pattern anchored at the start (\<open>^lit\<close>) can only match at position 0.\<close>

definition replaceStart :: "string \<Rightarrow> string \<Rightarrow> string \<Rightarrow> string" where
  "replaceStart lit rep s = (if startsWith s lit then rep @ drop (length lit) s else s)"

text \<open>A literal; a literal followed by the end anchor \<open>$\<close>.\<close>

definition mLit :: "string \<Rightarrow> matcher" where
  "mLit lit s = (if startsWith s lit then Some (length lit) else None)"

definition mLitEnd :: "string \<Rightarrow> matcher" where
  "mLitEnd lit s = (if s = lit \<and> lit \<noteq> [] then Some (length lit) else None)"

text \<open>A run of at least \<open>k\<close> separators: \<open>/+\<close> is \<open>mSlashes 1\<close>, \<open>/{2,}\<close> is \<open>mSlashes 2\<close>.\<close>

definition mSlashes :: "nat \<Rightarrow> matcher" where
  "mSlashes k s =
     (let n = length (takeWhile (\<lambda>c. c = CHR ''/'') s)
      in if 0 < n \<and> k \<le> n then Some n else None)"

text \<open>One character of a class.\<close>

definition mCharIn :: "string \<Rightarrow> matcher" where
  "mCharIn cls s = (case s of [] \<Rightarrow> None | c # _ \<Rightarrow> if c \<in> set cls then Some 1 else None)"

text \<open>
  A parenthesised group without a closing parenthesis inside: an opening parenthesis, the
  longest run of characters other than the closing one (of length at least \<open>k\<close>: 0 for
  the star, 1 for the plus), the closing parenthesis.
\<close>

definition mGroup :: "nat \<Rightarrow> matcher" where
  "mGroup k s =
     (case s of
        [] \<Rightarrow> None
      | c # r \<Rightarrow>
          (let body = takeWhile (\<lambda>x. x \<noteq> CHR '')'') r
           in if c = CHR ''('' \<and> k \<le> length body \<and> startsWith (drop (length body) r) '')''
              then Some (length body + 2) else None))"

text \<open>
  The group wrapped in a non-capturing one: the four characters \<open>(?:(\<close>, at least one
  character other than the closing parenthesis, two closing parentheses.
\<close>

definition mNonCapturing :: matcher where
  "mNonCapturing s =
     (let body = takeWhile (\<lambda>x. x \<noteq> CHR '')'') (drop 4 s)
      in if startsWith s ''(?:('' \<and> body \<noteq> [] \<and> startsWith (drop (4 + length body) s) ''))''
         then Some (length body + 6) else None)"

text \<open>
  The end pattern of the structural heuristic: backslash, slash, question mark, then a
  slash or the end of the subject, then anything up to the end of the subject. The dot does
  not match a line terminator, so after the slash the match needs a rest without one. The
  match always reaches the end of the subject.
\<close>

definition isLineTerminator :: "char \<Rightarrow> bool" where
  "isLineTerminator c = (c = CHR 0x0A \<or> c = CHR 0x0D)"

definition mEndPattern :: matcher where
  "mEndPattern s =
     (if startsWith s [BS, CHR ''/'', CHR ''?''] \<and>
         (case drop 3 s of
            [] \<Rightarrow> True
          | c # r \<Rightarrow> c = CHR ''/'' \<and> \<not> list_ex isLineTerminator r)
      then Some (length s) else None)"

section \<open>Pattern decoder\<close>

text \<open>
  \<open>extractFastPathRoute\<close>: the first place where caret, backslash, slash stand in the
  text, and behind it the longest run of characters other than the question mark (the
  capture group); the escaped separators of the group are unescaped and a separator is put
  in front.
\<close>

fun fastPathMatch :: "string \<Rightarrow> string option" where
  "fastPathMatch [] = None"
| "fastPathMatch (c # cs) =
     (if startsWith (c # cs) [CHR ''^'', BS, CHR ''/'']
      then Some (takeWhile (\<lambda>x. x \<noteq> CHR ''?'') (drop 2 cs))
      else fastPathMatch cs)"

definition extractFastPathRoute :: "string \<Rightarrow> string option" where
  "extractFastPathRoute regexString =
     (case fastPathMatch regexString of
        Some g \<Rightarrow> Some (''/'' @ replaceAll (mLit [BS, CHR ''/'']) ''/'' g)
      | None \<Rightarrow> None)"

text \<open>\<open>extractStandardRoute\<close>: the chain of eight replacements, in the source's order.\<close>

definition standardStrip :: "string \<Rightarrow> string" where
  "standardStrip regexString =
     replaceAll (mSlashes 2) ''/''
       (replaceAll (mGroup 0) []
         (replaceAll mNonCapturing []
           (replaceAll (mLit [BS, CHR ''/'']) ''/''
             (replaceFirst (mLitEnd ''$/'') []
               (replaceFirst (mLitEnd ''/i'') []
                 (replaceFirst mEndPattern []
                   (replaceStart ''/^'' [] regexString)))))))"

definition regexSpecials :: string where
  "regexSpecials = ''^$?*+[]'' @ [BS] @ ''{}|''"

definition extractStandardRoute :: "string \<Rightarrow> string option" where
  "extractStandardRoute regexString =
     (if includesStr regexString [CHR ''^'', BS, CHR ''/''] \<or>
         includesStr regexString [BS, CHR ''/'', CHR ''?'']
      then
        if includesStr regexString ([BS] @ ''/?(?='' @ [BS] @ ''/|$)'') then Some ''/''
        else
          (let path = standardStrip regexString
           in if path = [BS, CHR ''/''] \<or> path = [] \<or> path = ''(?:)'' then Some ''/''
              else
                (let path' = replaceAll (mCharIn regexSpecials) [] path
                 in Some (if startsWith path' ''/'' then path' else ''/'' @ path')))
      else None)"

definition extractFallbackRoute :: "string \<Rightarrow> string" where
  "extractFallbackRoute regexString = ''/''"

text \<open>
  \<open>a || b\<close> on a string or null: null and the empty string are falsy, so the next
  strategy is tried for both.
\<close>

definition truthyString :: "string option \<Rightarrow> string option" where
  "truthyString r = (case r of None \<Rightarrow> None | Some s \<Rightarrow> if s = [] then None else Some s)"

text \<open>
  \<open>extractBaseRoute\<close>. The argument is a compiled matcher or null/undefined: \<open>None\<close> is
  null or undefined, \<open>Some t\<close> a matcher whose \<open>toString()\<close> is \<open>t\<close> (a matcher object is
  always truthy).
\<close>

definition extractBaseRoute :: "string option \<Rightarrow> string" where
  "extractBaseRoute regexp =
     (case regexp of
        None \<Rightarrow> ''/''
      | Some regexString \<Rightarrow>
          (case truthyString (extractFastPathRoute regexString) of
             Some r \<Rightarrow> r
           | None \<Rightarrow>
               (case truthyString (extractStandardRoute regexString) of
                  Some r \<Rightarrow> r
                | None \<Rightarrow> extractFallbackRoute regexString)))"

text \<open>
  Modelled from the spec: the compiled form of a literal mount path is produced by the
  routing framework, not by this repository. The spec describes it as the shape
  anchored start, literal segment, optional trailing marker, with the flag \<open>i\<close>: the
  opening delimiter and the caret, the path with every separator escaped by a backslash,
  then backslash, slash, question mark and the lookahead for a separator or the end, then
  the closing delimiter and the flag.
\<close>

definition escapeSeparators :: "string \<Rightarrow> string" where
  "escapeSeparators p = concat (map (\<lambda>c. if c = CHR ''/'' then [BS, CHR ''/''] else [c]) p)"

definition compiledLiteral :: "string \<Rightarrow> string" where
  "compiledLiteral p = ''/^'' @ escapeSeparators p @ [BS] @ ''/?(?='' @ [BS] @ ''/|$)/i''"

section \<open>Path combiner\<close>

text \<open>
  The value given as a route path: a string, a compiled matcher (by its \<open>toString()\<close>
  text), or any other value, seen through \<open>routePath?.toString?.()\<close>: \<open>POther (Some t)\<close>
  is a number, an array or an object whose \<open>toString()\<close> returns the string \<open>t\<close>,
  \<open>POther None\<close> is null, undefined or a value without \<open>toString\<close>. Every built-in
  \<open>toString\<close> returns a string; an object whose own \<open>toString\<close> returns something else
  is outside this type.
\<close>

datatype pathValue = PString string | PRegExp string | POther "string option"

text \<open>
  The closing delimiter with its flags: a slash followed, up to the end of the subject, by
  characters among \<open>g\<close>, \<open>i\<close>, \<open>m\<close>, \<open>y\<close> only.
\<close>

definition mFlagsEnd :: matcher where
  "mFlagsEnd s =
     (case s of
        [] \<Rightarrow> None
      | c # r \<Rightarrow> if c = CHR ''/'' \<and> list_all (\<lambda>x. x \<in> set ''gimy'') r
                then Some (length s) else None)"

text \<open>
  The first replacement of \<open>normalizeRoutePath\<close> has two alternatives under the \<open>g\<close>
  flag: a slash at position 0, or the closing delimiter with its flags. The first
  alternative is tried first and only at position 0; the scan then goes on behind it.
\<close>

definition stripDelimiters :: "string \<Rightarrow> string" where
  "stripDelimiters s =
     (if startsWith s ''/'' then replaceAll mFlagsEnd [] (drop 1 s)
      else replaceAll mFlagsEnd [] s)"

definition normalizeRoutePath :: "pathValue \<Rightarrow> string" where
  "normalizeRoutePath routePath =
     (case routePath of
        PRegExp regexString \<Rightarrow>
          ''/'' @ replaceAll (mGroup 1) '':param''
                   (replaceAll (mLit [BS, CHR ''/'']) ''/'' (stripDelimiters regexString))
      | POther t \<Rightarrow>
          (let pathStr = (case truthyString t of Some s \<Rightarrow> s | None \<Rightarrow> ''/'')
           in if startsWith pathStr ''/'' then pathStr else ''/'' @ pathStr)
      | PString s \<Rightarrow> s)"

definition combinePaths :: "string \<Rightarrow> pathValue \<Rightarrow> string" where
  "combinePaths basePath routePath =
     (if basePath = ''/'' \<and> routePath = PString ''/'' then ''/''
      else
        (let normalizedRoutePath = normalizeRoutePath routePath;
             base = (if basePath = ''/'' then []
                     else if endsWith basePath ''/'' then basePath else basePath @ ''/'');
             route = (if base \<noteq> [] \<and> startsWith normalizedRoutePath ''/''
                      then drop 1 normalizedRoutePath else normalizedRoutePath);
             combined = replaceAll (mSlashes 1) ''/'' (base @ route);
             combined' = (if 1 < length combined \<and> endsWith combined ''/''
                          then butlast combined else combined)
         in if combined' = [] then ''/'' else combined'))"

section \<open>Routing tree and route records\<close>

text \<open>
  Case conversion, on the letters of ASCII (method names and domain tokens); other
  characters are left as they are.
\<close>

definition lowerLetters :: string where
  "lowerLetters = ''abcdefghijklmnopqrstuvwxyz''"

definition upperLetters :: string where
  "upperLetters = ''ABCDEFGHIJKLMNOPQRSTUVWXYZ''"

definition toUpperCase :: "string \<Rightarrow> string" where
  "toUpperCase s =
     map (\<lambda>c. case map_of (zip lowerLetters upperLetters) c of Some u \<Rightarrow> u | None \<Rightarrow> c) s"

definition toLowerCase :: "string \<Rightarrow> string" where
  "toLowerCase s =
     map (\<lambda>c. case map_of (zip upperLetters lowerLetters) c of Some l \<Rightarrow> l | None \<Rightarrow> c) s"

text \<open>
  A middleware is seen through its \<open>name\<close> property only (\<open>None\<close>: the middleware is
  null or undefined, or its name is not a string). An entry of a route's handler list
  has an optional \<open>handle\<close> and a name of its own.
\<close>

datatype middleware = Middleware (mw_name: "string option")

record stackEntry =
  se_handle :: "middleware option"
  se_name :: "string option"

text \<open>
  The route descriptor of a terminal node: the path fragment, the method table in the
  order \<open>Object.keys\<close> lists it (absent when the descriptor has no \<open>methods\<close>), and the
  handler list (absent when the descriptor has no \<open>stack\<close>).
\<close>

record routeDescriptor =
  rd_path :: pathValue
  rd_methods :: "(string \<times> bool) list option"
  rd_stack :: "stackEntry list option"

text \<open>
  A node of the routing tree, as the classifier and the walker read it: \<open>route\<close>,
  \<open>name\<close>, \<open>handle\<close> and \<open>regexp\<close>, each absent (falsy) or present. A handler is
  callable or not and may expose a node list (\<open>stack\<close>). \<open>LNullish\<close> is a node that is
  null or undefined. The router at the root of the tree is a handler too.
\<close>

datatype layer =
    LNullish
  | Layer (l_route: "routeDescriptor option") (l_name: "string option")
          (l_handle: "handler option") (l_regexp: "string option")
and handler = Handler (h_callable: bool) (h_stack: "layer list option")

record RouteInfo =
  "method" :: string
  path :: string
  protected :: bool
  middlewares :: "middleware list"

text \<open>The object handed to the custom protection predicate.\<close>

record protectionQuery =
  q_path :: string
  q_method :: string
  q_middlewares :: "middleware list"

text \<open>
  The \<open>protectionMiddlewareName\<close> option as the code can receive it: absent, a string,
  or an array of strings.
\<close>

datatype protectionName = PNAbsent | PNString string | PNArray "string list"

text \<open>Reading a property of null or undefined raises a \<open>TypeError\<close>.\<close>

datatype error = TypeError

section \<open>Node classifier\<close>

fun isRouteLayer :: "layer \<Rightarrow> bool" where
  "isRouteLayer LNullish = False"
| "isRouteLayer (Layer route name handle regexp) = (route \<noteq> None)"

fun isNestedRouter :: "layer \<Rightarrow> bool" where
  "isNestedRouter LNullish = False"
| "isNestedRouter (Layer route name handle regexp) =
     (name = Some ''router'' \<and>
      (case handle of None \<Rightarrow> False | Some h \<Rightarrow> h_stack h \<noteq> None))"

fun isSpecialMiddleware :: "layer \<Rightarrow> bool" where
  "isSpecialMiddleware LNullish = False"
| "isSpecialMiddleware (Layer route name handle regexp) =
     ((case handle of None \<Rightarrow> False | Some h \<Rightarrow> h_callable h) \<and> regexp \<noteq> None)"

section \<open>Protection resolver\<close>

text \<open>
  \<open>extractMiddlewares\<close>: \<open>(route.stack || []).map(s => s.handle || s)\<close>. An entry
  without a handle stands for itself, with its own name.
\<close>

definition extractMiddlewares :: "routeDescriptor \<Rightarrow> middleware list" where
  "extractMiddlewares route =
     map (\<lambda>s. case se_handle s of Some h \<Rightarrow> h | None \<Rightarrow> Middleware (se_name s))
       (case rd_stack route of None \<Rightarrow> [] | Some st \<Rightarrow> st)"

text \<open>
  Truthiness of the name option: undefined and the empty string are falsy, a non-empty
  string and every array (also the empty one) are truthy.
\<close>

fun truthyName :: "protectionName \<Rightarrow> bool" where
  "truthyName PNAbsent = False"
| "truthyName (PNString n) = (n \<noteq> [])"
| "truthyName (PNArray ns) = True"

text \<open>
  \<open>middleware?.name === protectionMiddlewareName\<close>: strict equality. A name is equal to
  a string with the same characters; it is never equal to an array.
\<close>

fun nameIs :: "protectionName \<Rightarrow> middleware \<Rightarrow> bool" where
  "nameIs (PNString n) mw = (mw_name mw = Some n)"
| "nameIs (PNArray ns) mw = False"
| "nameIs PNAbsent mw = False"

definition determineRouteProtection ::
  "string \<Rightarrow> string \<Rightarrow> middleware list \<Rightarrow> (protectionQuery \<Rightarrow> bool) option \<Rightarrow>
   protectionName \<Rightarrow> bool" where
  "determineRouteProtection pth mth mws isProtectedFn protectionMiddlewareName =
     (case isProtectedFn of
        Some f \<Rightarrow> f \<lparr>q_path = pth, q_method = toUpperCase mth, q_middlewares = mws\<rparr>
      | None \<Rightarrow>
          if truthyName protectionMiddlewareName
          then list_ex (nameIs protectionMiddlewareName) mws
          else False)"

section \<open>Tree walker\<close>

text \<open>
  \<open>extractRoutesFromRouteLayer\<close>. Reading \<open>route\<close> of a null node raises, and so does
  \<open>Object.keys\<close> of a method table that is absent. The declared methods are the keys of
  the table whose entry is truthy, in the table's order.
\<close>

fun extractRoutesFromRouteLayer ::
  "layer \<Rightarrow> string \<Rightarrow> (protectionQuery \<Rightarrow> bool) option \<Rightarrow> protectionName \<Rightarrow>
   error + RouteInfo list" where
  "extractRoutesFromRouteLayer LNullish basePath isProtectedFn pmn = Inl TypeError"
| "extractRoutesFromRouteLayer (Layer None name handle regexp) basePath isProtectedFn pmn =
     Inr []"
| "extractRoutesFromRouteLayer (Layer (Some route) name handle regexp) basePath
       isProtectedFn pmn =
     (let fullPath = combinePaths basePath (rd_path route)
      in case rd_methods route of
           None \<Rightarrow> Inl TypeError
         | Some table \<Rightarrow>
             (let methods = filter (\<lambda>m. map_of table m = Some True) (map fst table);
                  mws = extractMiddlewares route
              in Inr (map (\<lambda>m.
                       \<lparr>method = toUpperCase m,
                        path = fullPath,
                        protected = determineRouteProtection fullPath m mws isProtectedFn pmn,
                        middlewares = mws\<rparr>) methods)))"

text \<open>
  The walker. \<open>extractRoutesFromRouter\<close> maps \<open>extractRoutesFromLayer\<close> (the callback of
  its \<open>flatMap\<close>) over the node list, or over the empty list when the router has none;
  \<open>flatMapLayers\<close> is that \<open>flatMap\<close>, which stops at the first node that raises.
  \<open>extractRoutesFromNestedRouter\<close> and \<open>extractRoutesFromSpecialMiddleware\<close> read the
  handler of the node they are given, which raises when the node has none.
\<close>

function (sequential) extractRoutesFromRouter ::
  "handler \<Rightarrow> string \<Rightarrow> (protectionQuery \<Rightarrow> bool) option \<Rightarrow> protectionName \<Rightarrow>
   error + RouteInfo list"
and flatMapLayers ::
  "layer list \<Rightarrow> string \<Rightarrow> (protectionQuery \<Rightarrow> bool) option \<Rightarrow> protectionName \<Rightarrow>
   error + RouteInfo list"
and extractRoutesFromLayer ::
  "layer \<Rightarrow> string \<Rightarrow> (protectionQuery \<Rightarrow> bool) option \<Rightarrow> protectionName \<Rightarrow>
   error + RouteInfo list"
and extractRoutesFromNestedRouter ::
  "layer \<Rightarrow> string \<Rightarrow> (protectionQuery \<Rightarrow> bool) option \<Rightarrow> protectionName \<Rightarrow>
   error + RouteInfo list"
and extractRoutesFromSpecialMiddleware ::
  "layer \<Rightarrow> string \<Rightarrow> (protectionQuery \<Rightarrow> bool) option \<Rightarrow> protectionName \<Rightarrow>
   error + RouteInfo list"
where
  "extractRoutesFromRouter (Handler c None) baseRoute isProtectedFn pmn = Inr []"
| "extractRoutesFromRouter (Handler c (Some stack)) baseRoute isProtectedFn pmn =
     flatMapLayers stack baseRoute isProtectedFn pmn"
| "flatMapLayers [] baseRoute isProtectedFn pmn = Inr []"
| "flatMapLayers (l # ls) baseRoute isProtectedFn pmn =
     (case extractRoutesFromLayer l baseRoute isProtectedFn pmn of
        Inl e \<Rightarrow> Inl e
      | Inr rs \<Rightarrow>
          (case flatMapLayers ls baseRoute isProtectedFn pmn of
             Inl e \<Rightarrow> Inl e
           | Inr rs' \<Rightarrow> Inr (rs @ rs')))"
| "extractRoutesFromLayer l baseRoute isProtectedFn pmn =
     (if isRouteLayer l then extractRoutesFromRouteLayer l baseRoute isProtectedFn pmn
      else if isNestedRouter l then extractRoutesFromNestedRouter l baseRoute isProtectedFn pmn
      else if isSpecialMiddleware l
        then extractRoutesFromSpecialMiddleware l baseRoute isProtectedFn pmn
      else Inr [])"
| "extractRoutesFromNestedRouter LNullish baseRoute isProtectedFn pmn = Inl TypeError"
| "extractRoutesFromNestedRouter (Layer route name None regexp) baseRoute isProtectedFn pmn =
     Inl TypeError"
| "extractRoutesFromNestedRouter (Layer route name (Some h) regexp) baseRoute
       isProtectedFn pmn =
     (let subRoutePath = (case regexp of None \<Rightarrow> ''/'' | Some t \<Rightarrow> extractBaseRoute (Some t));
          combinedPath = combinePaths baseRoute (PString subRoutePath)
      in extractRoutesFromRouter h combinedPath isProtectedFn pmn)"
| "extractRoutesFromSpecialMiddleware LNullish baseRoute isProtectedFn pmn = Inl TypeError"
| "extractRoutesFromSpecialMiddleware (Layer route name None regexp) baseRoute
       isProtectedFn pmn = Inl TypeError"
| "extractRoutesFromSpecialMiddleware (Layer route name (Some h) regexp) baseRoute
       isProtectedFn pmn =
     (let subRoutePath = extractBaseRoute regexp
      in if h_stack h \<noteq> None
         then extractRoutesFromRouter h (combinePaths baseRoute (PString subRoutePath))
                isProtectedFn pmn
         else Inr [])"

  by pat_completeness auto
termination
  by (relation "measure (\<lambda>x. case x of
        Inl (Inl (h, _)) \<Rightarrow> 2 * size h
      | Inl (Inr (ls, _)) \<Rightarrow> 2 * size_list size ls
      | Inr (Inl (l, _)) \<Rightarrow> 2 * size l + 1
      | Inr (Inr (Inl (l, _))) \<Rightarrow> 2 * size l
      | Inr (Inr (Inr (l, _))) \<Rightarrow> 2 * size l)") auto

section \<open>Filter pipeline\<close>

text \<open>
  The five optional filters. The domain option is absent, a token or a list of tokens;
  the prefix is absent or a string; the two predicates are absent or functions from a
  record to a boolean.
\<close>

datatype domainOption = DAbsent | DString string | DArray "string list"

record filters =
  filterDomain :: domainOption
  pathPrefix :: "string option"
  showUnprotectedOnly :: bool
  includeFilter :: "(RouteInfo \<Rightarrow> bool) option"
  excludeFilter :: "(RouteInfo \<Rightarrow> bool) option"

text \<open>\<open>s.split("/")\<close>: the pieces between the separators, empty ones included.\<close>

fun splitSlash :: "string \<Rightarrow> string list" where
  "splitSlash [] = [] # []"
| "splitSlash (c # cs) =
     (if c = CHR ''/'' then [] # splitSlash cs
      else (case splitSlash cs of [] \<Rightarrow> [c] # [] | seg # segs \<Rightarrow> (c # seg) # segs))"

definition domainMatches :: "RouteInfo \<Rightarrow> string \<Rightarrow> bool" where
  "domainMatches route domain =
     (let domainString = toLowerCase domain;
          normalizedDomain = (if startsWith domainString ''/'' then drop 1 domainString
                              else domainString);
          pathSegments = filter (\<lambda>seg. seg \<noteq> []) (splitSlash (toLowerCase (path route)))
      in List.member pathSegments normalizedDomain)"

fun domainList :: "domainOption \<Rightarrow> string list" where
  "domainList (DArray ds) = ds"
| "domainList (DString d) = [d]"
| "domainList DAbsent = []"

definition applyDomainFilter :: "RouteInfo list \<Rightarrow> domainOption \<Rightarrow> RouteInfo list" where
  "applyDomainFilter routes fd =
     filter (\<lambda>route. list_ex (domainMatches route) (domainList fd)) routes"

text \<open>
  Truthiness of the options: an absent option and the empty string are falsy, every array
  and every function are truthy.
\<close>

fun truthyDomain :: "domainOption \<Rightarrow> bool" where
  "truthyDomain DAbsent = False"
| "truthyDomain (DString d) = (d \<noteq> [])"
| "truthyDomain (DArray ds) = True"

definition filterRoutes :: "RouteInfo list \<Rightarrow> filters \<Rightarrow> RouteInfo list" where
  "filterRoutes routes fs =
     (let r1 = (if truthyDomain (filterDomain fs) then applyDomainFilter routes (filterDomain fs)
                else routes);
          r2 = (case truthyString (pathPrefix fs) of
                  Some pre \<Rightarrow> filter (\<lambda>route. startsWith (path route) pre) r1
                | None \<Rightarrow> r1);
          r3 = (if showUnprotectedOnly fs then filter (\<lambda>route. \<not> protected route) r2 else r2);
          r4 = (case includeFilter fs of Some inc \<Rightarrow> filter inc r3 | None \<Rightarrow> r3);
          r5 = (case excludeFilter fs of
                  Some exc \<Rightarrow> filter (\<lambda>route. \<not> exc route) r4
                | None \<Rightarrow> r4)
      in r5)"

text \<open>
  A choice among the five filters: the filters of \<open>fs\<close> whose flag is set, the others
  switched off.
\<close>

record filterChoice =
  useDomain :: bool
  usePrefix :: bool
  useUnprotectedOnly :: bool
  useInclude :: bool
  useExclude :: bool

definition chooseFilters :: "filterChoice \<Rightarrow> filters \<Rightarrow> filters" where
  "chooseFilters ch fs =
     \<lparr>filterDomain = (if useDomain ch then filterDomain fs else DAbsent),
      pathPrefix = (if usePrefix ch then pathPrefix fs else None),
      showUnprotectedOnly = (useUnprotectedOnly ch \<and> showUnprotectedOnly fs),
      includeFilter = (if useInclude ch then includeFilter fs else None),
      excludeFilter = (if useExclude ch then excludeFilter fs else None)\<rparr>"

section \<open>Discovery\<close>

text \<open>
  The configuration of \<open>extractRoutes\<close>: the five filters, the custom protection
  predicate and the protection name.
\<close>

record DisplayRoutesConfig = filters +
  isProtected :: "(protectionQuery \<Rightarrow> bool) option"
  protectionMiddlewareName :: protectionName

text \<open>
  The application object: null or undefined, or an object whose \<open>_router\<close> is absent or
  a router. The outcome of a call: the warnings written to the console, in order, and the
  records or the error raised.
\<close>

datatype app = AppNullish | App (router: "handler option")

definition noRouterWarning :: string where
  "noRouterWarning =
     ''No router found in Express app. The app may be empty or not initialized properly.''"

fun routerOf :: "app \<Rightarrow> handler option" where
  "routerOf AppNullish = None"
| "routerOf (App r) = r"

definition extractRoutes ::
  "app \<Rightarrow> 'a DisplayRoutesConfig_scheme \<Rightarrow> string list \<times> (error + RouteInfo list)" where
  "extractRoutes a config =
     (case routerOf a of
        None \<Rightarrow> ([noRouterWarning], Inr [])
      | Some r \<Rightarrow>
          ([],
           case extractRoutesFromRouter r ''/'' (isProtected config)
                  (protectionMiddlewareName config) of
             Inl e \<Rightarrow> Inl e
           | Inr extractedRoutes \<Rightarrow>
               Inr (filterRoutes extractedRoutes
                      \<lparr>filterDomain = filterDomain config,
                       pathPrefix = pathPrefix config,
                       showUnprotectedOnly = showUnprotectedOnly config,
                       includeFilter = includeFilter config,
                       excludeFilter = excludeFilter config\<rparr>)))"


text \<open>The configuration of a call without options (\<open>config = {}\<close>).\<close>

definition defaultConfig :: DisplayRoutesConfig where
  "defaultConfig =
     \<lparr>filterDomain = DAbsent, pathPrefix = None, showUnprotectedOnly = False,
      includeFilter = None, excludeFilter = None,
      isProtected = None, protectionMiddlewareName = PNAbsent\<rparr>"

text \<open>
  A tree whose path fragments are absolute: the path fragment of every terminal node the
  walker can reach normalizes to a string that begins with the separator. The walker
  does not descend into a node with a route descriptor, so only its fragment counts.
\<close>

fun absolutePaths :: "layer \<Rightarrow> bool" and absolutePathsIn :: "handler \<Rightarrow> bool" where
  "absolutePaths LNullish = True"
| "absolutePaths (Layer None name None regexp) = True"
| "absolutePaths (Layer None name (Some h) regexp) = absolutePathsIn h"
| "absolutePaths (Layer (Some route) name handle regexp) =
     startsWith (normalizeRoutePath (rd_path route)) ''/''"
| "absolutePathsIn (Handler c None) = True"
| "absolutePathsIn (Handler c (Some stack)) = list_all absolutePaths stack"

section \<open>Facts about strings\<close>

lemma startsWith_prefix: "startsWith s p = prefix p s"
  unfolding startsWith_def
  by (metis append_eq_conv_conj prefix_def take_is_prefix)

lemma endsWith_suffix: "endsWith s p = suffix p s"
  unfolding endsWith_def
  by (metis suffix_def suffix_drop suffix_length_le append_eq_conv_conj length_drop
      diff_diff_cancel length_append add_diff_cancel_right')

lemma includesStr_sublist: "includesStr s p = sublist p s"
  by (induction s) (auto simp: startsWith_prefix sublist_Cons_right)

lemma startsWith_slash: "startsWith s ''/'' = (\<exists>t. s = CHR ''/'' # t)"
  by (cases s) (auto simp: startsWith_def)

section \<open>The decoder on compiled literals\<close>

lemma escapeSeparators_Nil: "escapeSeparators [] = []"
  by (simp add: escapeSeparators_def)

lemma escapeSeparators_Cons:
  "escapeSeparators (c # r) =
   (if c = CHR ''/'' then [BS, CHR ''/''] else [c]) @ escapeSeparators r"
  by (simp add: escapeSeparators_def)

lemma set_escapeSeparators: "set (escapeSeparators r) \<subseteq> insert BS (set r)"
  by (induction r) (auto simp: escapeSeparators_Nil escapeSeparators_Cons)

lemma hd_escapeSeparators:
  "escapeSeparators r @ t = x # xs \<Longrightarrow> t = [] \<or> hd t \<noteq> CHR ''/'' \<Longrightarrow> x \<noteq> CHR ''/''"
  by (cases r) (auto simp: escapeSeparators_Nil escapeSeparators_Cons split: if_splits)

text \<open>
  Unescaping undoes escaping, also in front of a rest that does not begin with a
  separator: every separator of the escaped text has its own backslash in front.
\<close>

lemma unescape_escape:
  "t = [] \<or> hd t \<noteq> CHR ''/'' \<Longrightarrow>
   replaceAll (mLit [BS, CHR ''/'']) ''/'' (escapeSeparators r @ t) =
   r @ replaceAll (mLit [BS, CHR ''/'']) ''/'' t"
proof (induction r)
  case Nil
  then show ?case by (simp add: escapeSeparators_Nil)
next
  case (Cons c r)
  show ?case
  proof (cases "c = CHR ''/''")
    case True
    then show ?thesis using Cons
      by (simp add: escapeSeparators_Cons mLit_def startsWith_def)
  next
    case False
    have "mLit [BS, CHR ''/''] (c # escapeSeparators r @ t) = None"
    proof (cases "escapeSeparators r @ t")
      case Nil
      then show ?thesis by (simp add: mLit_def startsWith_def)
    next
      case (Cons x xs)
      with hd_escapeSeparators [OF Cons Cons.prems] show ?thesis
        by (simp add: mLit_def startsWith_def)
    qed
    then show ?thesis using False Cons
      by (simp add: escapeSeparators_Cons)
  qed
qed

lemma fastPathMatch_compiledLiteral:
  assumes "CHR ''?'' \<notin> set r"
  shows "fastPathMatch (compiledLiteral (CHR ''/'' # r)) =
         Some (escapeSeparators r @ [BS, CHR ''/''])"
proof -
  have q: "CHR ''?'' \<notin> set (escapeSeparators r)"
    using assms set_escapeSeparators [of r] by auto
  have "takeWhile (\<lambda>x. x \<noteq> CHR ''?'')
          (escapeSeparators r @ [BS] @ ''/?(?='' @ [BS] @ ''/|$)/i'')
        = escapeSeparators r @ [BS, CHR ''/'']"
    using q by (subst takeWhile_append2) auto
  then show ?thesis
    by (simp add: compiledLiteral_def escapeSeparators_Cons startsWith_def)
qed

text \<open>
  C1 (as amended). On the compiled form of a literal path \<open>p\<close> (an absolute path without
  a question mark), the decoder does not return \<open>p\<close> itself: the capture of the fast path
  runs up to the question mark of the optional trailing marker, so the escaped separator
  in front of that question mark belongs to it, and the decoder returns \<open>p\<close> followed by
  one separator. For \<open>/api/users\<close> the result is \<open>/api/users/\<close>, the value the
  repository's own test of \<open>extractBaseRoute\<close> expects. (The shape is what the framework
  emits for a path that does not end with a separator; the equation holds for every rest
  \<open>r\<close> without a question mark.)
\<close>

theorem decode_compiled_literal:
  assumes "CHR ''?'' \<notin> set r"
  shows "extractBaseRoute (Some (compiledLiteral (CHR ''/'' # r))) = CHR ''/'' # r @ ''/''"
  using unescape_escape [of "[BS, CHR ''/'']" r]
  by (simp add: extractBaseRoute_def extractFastPathRoute_def truthyString_def
      fastPathMatch_compiledLiteral [OF assms] mLit_def startsWith_def)

theorem decode_compiled_literal_witness:
  "CHR ''?'' \<notin> set ''api/users'' \<and>
   extractBaseRoute (Some (compiledLiteral ''/api/users'')) = ''/api/users/''"
  using decode_compiled_literal [of "''api/users''"] by simp

text \<open>The round trip as the spec states it fails at \<open>/api/users\<close>.\<close>

theorem decode_not_roundtrip:
  "extractBaseRoute (Some (compiledLiteral ''/api/users'')) \<noteq> ''/api/users''"
  by (simp add: extractBaseRoute_def extractFastPathRoute_def truthyString_def
      compiledLiteral_def escapeSeparators_def mLit_def startsWith_def)

section \<open>Totality of the decoder\<close>

lemma extractFastPathRoute_slash:
  "extractFastPathRoute s = Some r \<Longrightarrow> \<exists>t. r = CHR ''/'' # t"
  by (auto simp: extractFastPathRoute_def split: option.splits)

lemma extractStandardRoute_slash:
  "extractStandardRoute s = Some r \<Longrightarrow> \<exists>t. r = CHR ''/'' # t"
  by (auto simp: extractStandardRoute_def Let_def startsWith_slash split: if_splits)

lemma extractBaseRoute_slash: "\<exists>t. extractBaseRoute regexp = CHR ''/'' # t"
proof (cases regexp)
  case None
  then show ?thesis by (simp add: extractBaseRoute_def)
next
  case (Some s)
  show ?thesis
  proof (cases "truthyString (extractFastPathRoute s)")
    case fast: (Some r)
    then have "extractFastPathRoute s = Some r"
      by (auto simp: truthyString_def split: option.splits if_splits)
    with Some fast show ?thesis
      by (auto simp: extractBaseRoute_def dest: extractFastPathRoute_slash)
  next
    case nofast: None
    show ?thesis
    proof (cases "truthyString (extractStandardRoute s)")
      case std: (Some r)
      then have "extractStandardRoute s = Some r"
        by (auto simp: truthyString_def split: option.splits if_splits)
      with Some nofast std show ?thesis
        by (auto simp: extractBaseRoute_def dest: extractStandardRoute_slash)
    next
      case None
      with Some nofast show ?thesis
        by (simp add: extractBaseRoute_def extractFallbackRoute_def)
    qed
  qed
qed

text \<open>
  C2. The decoder is total: \<open>extractBaseRoute\<close> is a function without an error branch
  (no operation of its body or of the three strategies can raise on a matcher, null or
  undefined), its result always begins with the separator, it is the root path for null
  and undefined, and it is the root path whenever neither heuristic applies.
\<close>

theorem extractBaseRoute_total:
  "(\<exists>t. extractBaseRoute regexp = CHR ''/'' # t) \<and>
   (regexp = None \<longrightarrow> extractBaseRoute regexp = ''/'') \<and>
   (\<forall>s. regexp = Some s \<and> extractFastPathRoute s = None \<and> extractStandardRoute s = None
        \<longrightarrow> extractBaseRoute regexp = ''/'')"
  using extractBaseRoute_slash [of regexp]
  by (auto simp: extractBaseRoute_def truthyString_def extractFallbackRoute_def)

theorem extractBaseRoute_total_witness:
  "extractFastPathRoute ''/a+b/'' = None \<and> extractStandardRoute ''/a+b/'' = None \<and>
   extractBaseRoute (Some ''/a+b/'') = ''/'' \<and> extractBaseRoute None = ''/''"
  using extractBaseRoute_total [of "Some ''/a+b/''"] extractBaseRoute_total [of None]
  by (simp add: extractFastPathRoute_def extractStandardRoute_def startsWith_def)

section \<open>Normal form of combined paths\<close>

lemma collapse_slash:
  "replaceAll (mSlashes 1) ''/'' (CHR ''/'' # cs) =
   CHR ''/'' # replaceAll (mSlashes 1) ''/'' (dropWhile (\<lambda>c. c = CHR ''/'') cs)"
  by (simp add: mSlashes_def dropWhile_eq_drop)

lemma collapse_other:
  "c \<noteq> CHR ''/'' \<Longrightarrow>
   replaceAll (mSlashes 1) ''/'' (c # cs) = c # replaceAll (mSlashes 1) ''/'' cs"
  by (simp add: mSlashes_def)

lemma collapse_hd:
  "s = [] \<or> hd s \<noteq> CHR ''/'' \<Longrightarrow>
   replaceAll (mSlashes 1) ''/'' s = [] \<or> hd (replaceAll (mSlashes 1) ''/'' s) \<noteq> CHR ''/''"
  by (cases s) (auto simp: collapse_other simp del: replaceAll.simps(2) One_nat_def)

lemma sublist_double_Cons:
  "sublist ''//'' (c # s) =
   ((c = CHR ''/'' \<and> s \<noteq> [] \<and> hd s = CHR ''/'') \<or> sublist ''//'' s)"
  by (cases s) (auto simp: sublist_Cons_right)

lemma collapse_no_double: "\<not> sublist ''//'' (replaceAll (mSlashes 1) ''/'' s)"
proof (induction s rule: length_induct)
  case (1 s)
  show ?case
  proof (cases s)
    case Nil
    then show ?thesis by simp
  next
    case (Cons c cs)
    show ?thesis
    proof (cases "c = CHR ''/''")
      case True
      let ?r = "dropWhile (\<lambda>c. c = CHR ''/'') cs"
      have "length ?r < length s"
        using Cons length_dropWhile_le [of _ cs] by (simp add: le_imp_less_Suc)
      then have ih: "\<not> sublist ''//'' (replaceAll (mSlashes 1) ''/'' ?r)"
        using 1 by blast
      have "?r = [] \<or> hd ?r \<noteq> CHR ''/''"
        using hd_dropWhile [of "\<lambda>c. c = CHR ''/''" cs] by blast
      from collapse_hd [OF this] ih show ?thesis
        using Cons True
        by (auto simp: collapse_slash sublist_double_Cons
            simp del: replaceAll.simps One_nat_def)
    next
      case False
      have "length cs < length s" using Cons by simp
      then have "\<not> sublist ''//'' (replaceAll (mSlashes 1) ''/'' cs)"
        using 1 by blast
      then show ?thesis using Cons False
        by (simp add: collapse_other sublist_double_Cons del: replaceAll.simps One_nat_def)
    qed
  qed
qed

lemma butlast_no_double: "\<not> sublist ''//'' s \<Longrightarrow> \<not> sublist ''//'' (butlast s)"
  by (metis prefix_imp_sublist prefixeq_butlast sublist_order.order_trans)

lemma butlast_no_trailing:
  assumes "\<not> sublist ''//'' s" "suffix ''/'' s"
  shows "\<not> suffix ''/'' (butlast s)"
proof
  assume "suffix ''/'' (butlast s)"
  then obtain a where a: "butlast s = a @ ''/''" by (auto simp: suffix_def)
  from assms(2) obtain b where b: "s = b @ ''/''" by (auto simp: suffix_def)
  then have "s = butlast s @ ''/''" by simp
  with a have "s = a @ ''//'' @ []" by simp
  then have "sublist ''//'' s" unfolding sublist_def by blast
  with assms(1) show False by simp
qed

lemma combinePaths_normal_form:
  "\<not> sublist ''//'' (combinePaths basePath routePath) \<and>
   (suffix ''/'' (combinePaths basePath routePath) \<longrightarrow>
    combinePaths basePath routePath = ''/'')"
proof (cases "basePath = ''/'' \<and> routePath = PString ''/''")
  case True
  then show ?thesis by (simp add: combinePaths_def sublist_Cons_right)
next
  case False
  define base where "base = (if basePath = ''/'' then []
                     else if endsWith basePath ''/'' then basePath else basePath @ ''/'')"
  define route where
    "route = (if base \<noteq> [] \<and> startsWith (normalizeRoutePath routePath) ''/''
              then drop 1 (normalizeRoutePath routePath) else normalizeRoutePath routePath)"
  define combined where "combined = replaceAll (mSlashes 1) ''/'' (base @ route)"
  define combined' where "combined' = (if 1 < length combined \<and> endsWith combined ''/''
                          then butlast combined else combined)"
  have res: "combinePaths basePath routePath = (if combined' = [] then ''/'' else combined')"
    using False unfolding combinePaths_def Let_def combined'_def combined_def route_def base_def
    by auto
  have nd: "\<not> sublist ''//'' combined"
    unfolding combined_def by (rule collapse_no_double)
  have nd': "\<not> sublist ''//'' combined'"
    using nd by (simp add: combined'_def butlast_no_double)
  have tr: "suffix ''/'' combined' \<Longrightarrow> combined' = ''/''"
  proof -
    assume s: "suffix ''/'' combined'"
    show ?thesis
    proof (cases "1 < length combined \<and> endsWith combined ''/''")
      case True
      then have "\<not> suffix ''/'' (butlast combined)"
        using nd by (simp add: butlast_no_trailing endsWith_suffix)
      with True s show ?thesis by (simp add: combined'_def)
    next
      case False
      with s have "\<not> 1 < length combined"
        by (auto simp: combined'_def endsWith_suffix)
      with s False show ?thesis
        by (cases combined) (auto simp: combined'_def suffix_def)
    qed
  qed
  show ?thesis
    using nd' tr by (auto simp: res sublist_Cons_right)
qed

text \<open>
  C3. \<open>combinePaths\<close> of the root path with the root path is the root path; and for
  every base and every sub-path (a string, and also a matcher or any other value), the
  result never contains two consecutive separators, and it ends with a separator only if
  it is the root path itself.
\<close>

theorem combinePaths_normalized:
  "combinePaths ''/'' (PString ''/'') = ''/'' \<and>
   \<not> includesStr (combinePaths basePath routePath) ''//'' \<and>
   (endsWith (combinePaths basePath routePath) ''/'' \<longrightarrow>
    combinePaths basePath routePath = ''/'')"
  using combinePaths_normal_form [of basePath routePath]
  by (simp add: includesStr_sublist endsWith_suffix combinePaths_def)

theorem combinePaths_normalized_witness:
  "endsWith (combinePaths ''///'' (PString ''//'')) ''/'' \<and>
   combinePaths ''///'' (PString ''//'') = ''/'' \<and>
   \<not> includesStr (combinePaths ''/api/'' (PString ''/users/'')) ''//'' \<and>
   combinePaths ''/api/'' (PString ''/users/'') = ''/api/users''"
  using combinePaths_normalized [of "''///''" "PString ''//''"]
    combinePaths_normalized [of "''/api/''" "PString ''/users/''"]
  by (simp add: combinePaths_def normalizeRoutePath_def startsWith_def endsWith_def
      mSlashes_def)


section \<open>Paths of the records\<close>

lemma routeLayer_paths:
  "extractRoutesFromRouteLayer l b f p = Inr rs \<Longrightarrow> r \<in> set rs \<Longrightarrow>
   \<exists>route name handle regexp. l = Layer (Some route) name handle regexp \<and>
      path r = combinePaths b (rd_path route)"
  by (cases "(l, b, f, p)" rule: extractRoutesFromRouteLayer.cases)
     (auto simp: Let_def split: option.splits)

lemma combinePaths_absolute:
  assumes "startsWith basePath ''/''"
    and "basePath \<noteq> ''/'' \<or> normalizeRoutePath rp = [] \<or>
         startsWith (normalizeRoutePath rp) ''/''"
  shows "startsWith (combinePaths basePath rp) ''/''"
proof (cases "basePath = ''/'' \<and> rp = PString ''/''")
  case True
  then show ?thesis by (simp add: combinePaths_def startsWith_def)
next
  case False
  define base where "base = (if basePath = ''/'' then []
                     else if endsWith basePath ''/'' then basePath else basePath @ ''/'')"
  define route where
    "route = (if base \<noteq> [] \<and> startsWith (normalizeRoutePath rp) ''/''
              then drop 1 (normalizeRoutePath rp) else normalizeRoutePath rp)"
  define combined where "combined = replaceAll (mSlashes 1) ''/'' (base @ route)"
  define combined' where "combined' = (if 1 < length combined \<and> endsWith combined ''/''
                          then butlast combined else combined)"
  have res: "combinePaths basePath rp = (if combined' = [] then ''/'' else combined')"
    using False unfolding combinePaths_def Let_def combined'_def combined_def route_def base_def
    by auto
  have "base @ route = [] \<or> (\<exists>t. base @ route = CHR ''/'' # t)"
    using assms unfolding base_def route_def startsWith_slash by auto
  then have "combined = [] \<or> (\<exists>u. combined = CHR ''/'' # u)"
    unfolding combined_def
    by (auto simp: collapse_slash simp del: replaceAll.simps(2) One_nat_def)
  then have "combined' = [] \<or> (\<exists>u. combined' = CHR ''/'' # u)"
    unfolding combined'_def by (cases "combined") (auto split: if_splits)
  then show ?thesis
    by (auto simp: res startsWith_slash)
qed

text \<open>
  The invariant of the walk: below an absolute base path, on a tree with absolute
  fragments, every record has an absolute path. Mount paths come from the decoder, whose
  results are absolute.
\<close>

lemma walker_absolute:
  "startsWith b ''/'' \<Longrightarrow> absolutePathsIn h \<Longrightarrow>
     extractRoutesFromRouter h b f p = Inr rs \<Longrightarrow>
     \<forall>r \<in> set rs. startsWith (path r) ''/''"
  "startsWith b ''/'' \<Longrightarrow> list_all absolutePaths ls \<Longrightarrow>
     flatMapLayers ls b f p = Inr rs \<Longrightarrow>
     \<forall>r \<in> set rs. startsWith (path r) ''/''"
  "startsWith b ''/'' \<Longrightarrow> absolutePaths l \<Longrightarrow>
     extractRoutesFromLayer l b f p = Inr rs \<Longrightarrow>
     \<forall>r \<in> set rs. startsWith (path r) ''/''"
  "startsWith b ''/'' \<Longrightarrow> absolutePaths l1 \<Longrightarrow> \<not> isRouteLayer l1 \<Longrightarrow>
     extractRoutesFromNestedRouter l1 b f p = Inr rs \<Longrightarrow>
     \<forall>r \<in> set rs. startsWith (path r) ''/''"
  "startsWith b ''/'' \<Longrightarrow> absolutePaths l2 \<Longrightarrow> \<not> isRouteLayer l2 \<Longrightarrow>
     extractRoutesFromSpecialMiddleware l2 b f p = Inr rs \<Longrightarrow>
     \<forall>r \<in> set rs. startsWith (path r) ''/''"
proof (induction h b f p and ls b f p and l b f p and l1 b f p and l2 b f p
    arbitrary: rs and rs and rs and rs and rs
    rule: extractRoutesFromRouter_flatMapLayers_extractRoutesFromLayer_extractRoutesFromNestedRouter_extractRoutesFromSpecialMiddleware.induct)
  case (1 c baseRoute isProtectedFn pmn)
  then show ?case by simp
next
  case (2 c stack baseRoute isProtectedFn pmn)
  then show ?case by simp
next
  case (3 baseRoute isProtectedFn pmn)
  then show ?case by simp
next
  case (4 l ls baseRoute isProtectedFn pmn)
  from "4.prems"(3) obtain r1 r2 where
    r1: "extractRoutesFromLayer l baseRoute isProtectedFn pmn = Inr r1" and
    r2: "flatMapLayers ls baseRoute isProtectedFn pmn = Inr r2" and
    rs: "rs = r1 @ r2"
    by (auto split: sum.splits)
  from "4.IH"(1) [OF "4.prems"(1) _ r1] "4.prems"(2)
  have a: "\<forall>r \<in> set r1. startsWith (path r) ''/''" by simp
  from "4.IH"(2) [OF r1 "4.prems"(1) _ r2] "4.prems"(2)
  have b: "\<forall>r \<in> set r2. startsWith (path r) ''/''" by simp
  from a b rs show ?case by auto
next
  case (5 l baseRoute isProtectedFn pmn)
  show ?case
  proof (cases "isRouteLayer l")
    case True
    show ?thesis
    proof
      fix r assume "r \<in> set rs"
      with True "5.prems"(3) obtain route name handle regexp where
        l: "l = Layer (Some route) name handle regexp" and
        p: "path r = combinePaths baseRoute (rd_path route)"
        using routeLayer_paths [of l baseRoute isProtectedFn pmn rs r] by auto
      from l "5.prems"(2) have "startsWith (normalizeRoutePath (rd_path route)) ''/''"
        by simp
      with "5.prems"(1) p show "startsWith (path r) ''/''"
        by (simp add: combinePaths_absolute)
    qed
  next
    case False
    then show ?thesis
      using "5.IH"(1) [OF False _ "5.prems"(1,2) False]
        "5.IH"(2) [OF False _ _ "5.prems"(1,2) False] "5.prems"(3)
      by (auto split: if_splits)
  qed
next
  case (6 baseRoute isProtectedFn pmn)
  then show ?case by simp
next
  case (7 route name regexp baseRoute isProtectedFn pmn)
  then show ?case by simp
next
  case (8 route name h regexp baseRoute isProtectedFn pmn)
  let ?sub = "case regexp of None \<Rightarrow> ''/'' | Some t \<Rightarrow> extractBaseRoute (Some t)"
  have "startsWith ?sub ''/''"
    using extractBaseRoute_slash by (auto simp: startsWith_slash split: option.splits)
  then have "startsWith (combinePaths baseRoute (PString ?sub)) ''/''"
    using "8.prems"(1) by (intro combinePaths_absolute) (auto simp: normalizeRoutePath_def)
  moreover have "absolutePathsIn h"
    using "8.prems"(2,3) by (cases route) auto
  ultimately show ?case
    using "8.IH" [OF refl refl _ _ ] "8.prems"(4) by (simp add: Let_def)
next
  case (9 baseRoute isProtectedFn pmn)
  then show ?case by simp
next
  case (10 route name regexp baseRoute isProtectedFn pmn)
  then show ?case by simp
next
  case (11 route name h regexp baseRoute isProtectedFn pmn)
  have "startsWith (extractBaseRoute regexp) ''/''"
    using extractBaseRoute_slash by (auto simp: startsWith_slash)
  then have "startsWith (combinePaths baseRoute (PString (extractBaseRoute regexp))) ''/''"
    using "11.prems"(1) by (intro combinePaths_absolute) (auto simp: normalizeRoutePath_def)
  moreover have "absolutePathsIn h"
    using "11.prems"(2,3) by (cases route) auto
  ultimately show ?case
    using "11.IH" [OF refl] "11.prems"(4) by (auto simp: Let_def split: if_splits)
qed

lemma filterRoutes_filter:
  "filterRoutes rs fs =
   filter (\<lambda>r. (truthyDomain (filterDomain fs) \<longrightarrow>
                  list_ex (domainMatches r) (domainList (filterDomain fs))) \<and>
              (\<forall>pre. truthyString (pathPrefix fs) = Some pre \<longrightarrow> startsWith (path r) pre) \<and>
              (showUnprotectedOnly fs \<longrightarrow> \<not> protected r) \<and>
              (\<forall>inc. includeFilter fs = Some inc \<longrightarrow> inc r) \<and>
              (\<forall>exc. excludeFilter fs = Some exc \<longrightarrow> \<not> exc r)) rs"
  by (auto simp: filterRoutes_def applyDomainFilter_def Let_def split: option.splits
      intro!: filter_cong)

text \<open>
  C4 (as amended). \<open>normalizeRoutePath\<close> returns a string that begins with the separator
  for every compiled matcher and for every value that is neither a string nor a matcher.
  A string is returned unchanged, so there the result begins with the separator only if
  the string does. Consequently the path of every record begins with the separator when
  the path fragments of the tree are absolute, that is, when every fragment is a matcher,
  a value that is not a string, or a string that begins with the separator.
\<close>

theorem normalizeRoutePath_absolute:
  "startsWith (normalizeRoutePath (PRegExp t)) ''/'' \<and>
   startsWith (normalizeRoutePath (POther u)) ''/'' \<and>
   normalizeRoutePath (PString s) = s \<and>
   (absolutePathsIn r \<and> extractRoutes (App (Some r)) config = (w, Inr rs) \<longrightarrow>
      (\<forall>x \<in> set rs. startsWith (path x) ''/''))"
proof (intro conjI impI)
  show "startsWith (normalizeRoutePath (PRegExp t)) ''/''"
    by (simp add: normalizeRoutePath_def startsWith_def)
  show "startsWith (normalizeRoutePath (POther u)) ''/''"
    by (simp add: normalizeRoutePath_def Let_def startsWith_slash)
  show "normalizeRoutePath (PString s) = s"
    by (simp add: normalizeRoutePath_def)
  assume a: "absolutePathsIn r \<and> extractRoutes (App (Some r)) config = (w, Inr rs)"
  then obtain extracted where
    e: "extractRoutesFromRouter r ''/'' (isProtected config)
          (protectionMiddlewareName config) = Inr extracted" and
    sub: "set rs \<subseteq> set extracted"
    by (auto simp: extractRoutes_def filterRoutes_filter split: sum.splits)
  have "startsWith ''/'' ''/''" by (simp add: startsWith_def)
  from walker_absolute(1) [OF this _ e] a sub
  show "\<forall>x \<in> set rs. startsWith (path x) ''/''" by blast
qed

theorem normalizeRoutePath_absolute_witness:
  "absolutePathsIn (Handler True (Some
       [Layer (Some \<lparr>rd_path = PString ''/users'', rd_methods = Some [(''get'', True)],
                     rd_stack = None\<rparr>) None None None])) \<and>
   extractRoutes (App (Some (Handler True (Some
       [Layer (Some \<lparr>rd_path = PString ''/users'', rd_methods = Some [(''get'', True)],
                     rd_stack = None\<rparr>) None None None])))) defaultConfig =
     ([], Inr [\<lparr>method = ''GET'', path = ''/users'', protected = False,
                 middlewares = []\<rparr>]) \<and>
   startsWith ''/users'' ''/''"
  using normalizeRoutePath_absolute
    [of "[]" None "[]"
        "Handler True (Some
           [Layer (Some \<lparr>rd_path = PString ''/users'', rd_methods = Some [(''get'', True)],
                         rd_stack = None\<rparr>) None None None])"
        defaultConfig "[]"
        "[\<lparr>method = ''GET'', path = ''/users'', protected = False, middlewares = []\<rparr>]"]
  by (simp add: extractRoutes_def defaultConfig_def combinePaths_def normalizeRoutePath_def
      startsWith_def endsWith_def mSlashes_def toUpperCase_def lowerLetters_def
      upperLetters_def extractMiddlewares_def determineRouteProtection_def filterRoutes_def
      truthyString_def Let_def)

text \<open>
  The spec's statement fails on a string without a leading separator: it is returned as
  it is, and a terminal node at the root with such a fragment yields a record whose path
  does not begin with the separator.
\<close>

theorem relative_string_unchanged:
  "\<not> startsWith (normalizeRoutePath (PString ''users'')) ''/'' \<and>
   extractRoutes (App (Some (Handler True (Some
       [Layer (Some \<lparr>rd_path = PString ''users'', rd_methods = Some [(''get'', True)],
                     rd_stack = None\<rparr>) None None None])))) defaultConfig =
     ([], Inr [\<lparr>method = ''GET'', path = ''users'', protected = False,
                 middlewares = []\<rparr>])"
  by (simp add: extractRoutes_def defaultConfig_def combinePaths_def normalizeRoutePath_def
      startsWith_def endsWith_def mSlashes_def toUpperCase_def lowerLetters_def
      upperLetters_def extractMiddlewares_def determineRouteProtection_def filterRoutes_def
      truthyString_def Let_def)


section \<open>Protection\<close>

text \<open>
  C5. When a custom predicate is supplied, \<open>determineRouteProtection\<close> returns exactly
  what the predicate returns on the path, the upper-cased method and the middleware list,
  whatever protection name is supplied with it.
\<close>

theorem predicate_wins:
  "determineRouteProtection pth mth mws (Some f) pmn =
   f \<lparr>q_path = pth, q_method = toUpperCase mth, q_middlewares = mws\<rparr>"
  by (simp add: determineRouteProtection_def)

theorem predicate_wins_witness:
  "determineRouteProtection ''/api/users'' ''get'' [Middleware (Some ''requireAuth'')]
     (Some (\<lambda>q. q_method q = ''GET'' \<and> q_path q = ''/api/users'' \<and> q_middlewares q = []))
     (PNString ''requireAuth'') = False"
  using predicate_wins [of "''/api/users''" "''get''" "[Middleware (Some ''requireAuth'')]"
      "\<lambda>q. q_method q = ''GET'' \<and> q_path q = ''/api/users'' \<and> q_middlewares q = []"
      "PNString ''requireAuth''"]
  by (simp add: toUpperCase_def lowerLetters_def upperLetters_def)

text \<open>
  Without a predicate and with one non-empty name, the route is protected exactly when
  some attached middleware has that name.
\<close>

lemma single_name_protection:
  "n \<noteq> [] \<Longrightarrow>
   determineRouteProtection pth mth mws None (PNString n) =
     (\<exists>mw \<in> set mws. mw_name mw = Some n)"
  by (simp add: determineRouteProtection_def list_ex_iff)

text \<open>
  C6. With a list of names the code compares each middleware's name with the list itself
  by strict equality, which is never true: a route whose middleware is named
  \<open>authMiddleware\<close> is reported unprotected although the list of names contains
  \<open>authMiddleware\<close>.
\<close>

theorem name_list_never_matches:
  "determineRouteProtection ''/auth-only'' ''get'' [Middleware (Some ''authMiddleware'')] None
     (PNArray [''authMiddleware'', ''adminMiddleware'']) = False"
  by (simp add: determineRouteProtection_def)

section \<open>Filters\<close>

lemma subseq_filter_weaker:
  assumes "\<And>x. P x \<Longrightarrow> Q x"
  shows "subseq (filter P xs) (filter Q xs)"
proof -
  have "filter P xs = filter P (filter Q xs)"
    using assms by (auto intro!: filter_cong)
  then show ?thesis by (metis subseq_filter_left)
qed

text \<open>
  C7. For every record list and every configuration of the five filters, the filtered
  list is a subsequence of the input (the order of the records is kept), and it is a
  subsequence of what any choice among these filters yields on the same input: applying
  all of them never gives more than applying only some of them.
\<close>

theorem filterRoutes_narrowing:
  "subseq (filterRoutes routes fs) routes \<and>
   subseq (filterRoutes routes fs) (filterRoutes routes (chooseFilters ch fs))"
proof
  show "subseq (filterRoutes routes fs) routes"
    by (simp add: filterRoutes_filter)
  show "subseq (filterRoutes routes fs) (filterRoutes routes (chooseFilters ch fs))"
    unfolding filterRoutes_filter
    by (rule subseq_filter_weaker)
       (auto simp: chooseFilters_def truthyString_def split: if_splits)
qed

theorem filterRoutes_narrowing_witness:
  "filterRoutes
     [\<lparr>method = ''GET'', path = ''/api/users'', protected = False, middlewares = []\<rparr>,
      \<lparr>method = ''GET'', path = ''/api/admin'', protected = True, middlewares = []\<rparr>,
      \<lparr>method = ''GET'', path = ''/health'', protected = False, middlewares = []\<rparr>]
     \<lparr>filterDomain = DString ''/Users'', pathPrefix = Some ''/api'',
      showUnprotectedOnly = True, includeFilter = Some (\<lambda>r. method r = ''GET''),
      excludeFilter = Some (\<lambda>r. path r = ''/health'')\<rparr>
   = [\<lparr>method = ''GET'', path = ''/api/users'', protected = False, middlewares = []\<rparr>] \<and>
   filterRoutes
     [\<lparr>method = ''GET'', path = ''/api/users'', protected = False, middlewares = []\<rparr>,
      \<lparr>method = ''GET'', path = ''/api/admin'', protected = True, middlewares = []\<rparr>,
      \<lparr>method = ''GET'', path = ''/health'', protected = False, middlewares = []\<rparr>]
     (chooseFilters
        \<lparr>useDomain = False, usePrefix = True, useUnprotectedOnly = False,
         useInclude = True, useExclude = False\<rparr>
        \<lparr>filterDomain = DString ''/Users'', pathPrefix = Some ''/api'',
         showUnprotectedOnly = True, includeFilter = Some (\<lambda>r. method r = ''GET''),
         excludeFilter = Some (\<lambda>r. path r = ''/health'')\<rparr>)
   = [\<lparr>method = ''GET'', path = ''/api/users'', protected = False, middlewares = []\<rparr>,
      \<lparr>method = ''GET'', path = ''/api/admin'', protected = True, middlewares = []\<rparr>]"
  using filterRoutes_narrowing
    [of "[\<lparr>method = ''GET'', path = ''/api/users'', protected = False, middlewares = []\<rparr>,
          \<lparr>method = ''GET'', path = ''/api/admin'', protected = True, middlewares = []\<rparr>,
          \<lparr>method = ''GET'', path = ''/health'', protected = False, middlewares = []\<rparr>]"
        "\<lparr>filterDomain = DString ''/Users'', pathPrefix = Some ''/api'',
          showUnprotectedOnly = True, includeFilter = Some (\<lambda>r. method r = ''GET''),
          excludeFilter = Some (\<lambda>r. path r = ''/health'')\<rparr>"
        "\<lparr>useDomain = False, usePrefix = True, useUnprotectedOnly = False,
          useInclude = True, useExclude = False\<rparr>"]
  by (simp add: filterRoutes_def applyDomainFilter_def domainMatches_def chooseFilters_def
      toLowerCase_def lowerLetters_def upperLetters_def startsWith_def truthyString_def
      Let_def)

section \<open>Discovery without routes\<close>

text \<open>
  C8 (as amended). The warning belongs to the missing router, not to the empty node
  list. When the application object is null or undefined or has no router, discovery
  returns the empty list and emits exactly one warning, without raising. When the router
  is there and its node list is empty or absent, discovery returns the empty list without
  raising and emits no warning.
\<close>

theorem extractRoutes_without_routes:
  "extractRoutes AppNullish config = ([noRouterWarning], Inr []) \<and>
   extractRoutes (App None) config = ([noRouterWarning], Inr []) \<and>
   extractRoutes (App (Some (Handler c (Some [])))) config = ([], Inr []) \<and>
   extractRoutes (App (Some (Handler c None))) config = ([], Inr [])"
  by (simp add: extractRoutes_def filterRoutes_filter)

theorem extractRoutes_without_routes_witness:
  "extractRoutes (App None) defaultConfig = ([noRouterWarning], Inr []) \<and>
   extractRoutes (App (Some (Handler True None))) defaultConfig = ([], Inr [])"
  using extractRoutes_without_routes [of defaultConfig True] by simp

text \<open>On a router with an empty node list the number of warnings is zero, not one.\<close>

theorem empty_node_list_no_warning:
  "extractRoutes (App (Some (Handler True (Some [])))) defaultConfig = ([], Inr []) \<and>
   length (fst (extractRoutes (App (Some (Handler True (Some [])))) defaultConfig)) \<noteq> 1"
  by (simp add: extractRoutes_def filterRoutes_filter)

section \<open>Classification of nodes\<close>

lemma nested_special_agree:
  "isNestedRouter l \<Longrightarrow> isSpecialMiddleware l \<Longrightarrow>
   extractRoutesFromNestedRouter l b f p = extractRoutesFromSpecialMiddleware l b f p"
  by (cases l) (auto split: option.splits)

text \<open>
  C9 (as amended). The three predicates are not mutually exclusive. The walker tells the
  kinds apart by their order: a node is handled by the first of \<open>isRouteLayer\<close>,
  \<open>isNestedRouter\<close>, \<open>isSpecialMiddleware\<close> that holds, and contributes nothing when
  none holds, so every node is handled as at most one kind. Where \<open>isNestedRouter\<close> and
  \<open>isSpecialMiddleware\<close> both hold, the two ways of handling the node give the same
  result.
\<close>

theorem classifier_first_match:
  "(isRouteLayer l \<longrightarrow>
      extractRoutesFromLayer l b f p = extractRoutesFromRouteLayer l b f p) \<and>
   (\<not> isRouteLayer l \<and> isNestedRouter l \<longrightarrow>
      extractRoutesFromLayer l b f p = extractRoutesFromNestedRouter l b f p) \<and>
   (\<not> isRouteLayer l \<and> \<not> isNestedRouter l \<and> isSpecialMiddleware l \<longrightarrow>
      extractRoutesFromLayer l b f p = extractRoutesFromSpecialMiddleware l b f p) \<and>
   (\<not> isRouteLayer l \<and> \<not> isNestedRouter l \<and> \<not> isSpecialMiddleware l \<longrightarrow>
      extractRoutesFromLayer l b f p = Inr []) \<and>
   (isNestedRouter l \<and> isSpecialMiddleware l \<longrightarrow>
      extractRoutesFromNestedRouter l b f p = extractRoutesFromSpecialMiddleware l b f p)"
  using nested_special_agree [of l b f p] by simp

theorem classifier_first_match_witness:
  "isRouteLayer
     (Layer (Some \<lparr>rd_path = PString ''/users'', rd_methods = Some [(''get'', True)],
                   rd_stack = None\<rparr>)
        (Some ''bound dispatch'') (Some (Handler True None)) (Some (compiledLiteral ''/users''))) \<and>
   isSpecialMiddleware
     (Layer (Some \<lparr>rd_path = PString ''/users'', rd_methods = Some [(''get'', True)],
                   rd_stack = None\<rparr>)
        (Some ''bound dispatch'') (Some (Handler True None)) (Some (compiledLiteral ''/users''))) \<and>
   extractRoutesFromLayer
     (Layer (Some \<lparr>rd_path = PString ''/users'', rd_methods = Some [(''get'', True)],
                   rd_stack = None\<rparr>)
        (Some ''bound dispatch'') (Some (Handler True None)) (Some (compiledLiteral ''/users'')))
     ''/'' None PNAbsent =
   extractRoutesFromRouteLayer
     (Layer (Some \<lparr>rd_path = PString ''/users'', rd_methods = Some [(''get'', True)],
                   rd_stack = None\<rparr>)
        (Some ''bound dispatch'') (Some (Handler True None)) (Some (compiledLiteral ''/users'')))
     ''/'' None PNAbsent \<and>
   \<not> isRouteLayer
     (Layer None (Some ''router'') (Some (Handler True (Some []))) (Some (compiledLiteral ''/api''))) \<and>
   isNestedRouter
     (Layer None (Some ''router'') (Some (Handler True (Some []))) (Some (compiledLiteral ''/api''))) \<and>
   isSpecialMiddleware
     (Layer None (Some ''router'') (Some (Handler True (Some []))) (Some (compiledLiteral ''/api''))) \<and>
   extractRoutesFromLayer
     (Layer None (Some ''router'') (Some (Handler True (Some []))) (Some (compiledLiteral ''/api'')))
     ''/'' None PNAbsent =
   extractRoutesFromNestedRouter
     (Layer None (Some ''router'') (Some (Handler True (Some []))) (Some (compiledLiteral ''/api'')))
     ''/'' None PNAbsent \<and>
   extractRoutesFromNestedRouter
     (Layer None (Some ''router'') (Some (Handler True (Some []))) (Some (compiledLiteral ''/api'')))
     ''/'' None PNAbsent =
   extractRoutesFromSpecialMiddleware
     (Layer None (Some ''router'') (Some (Handler True (Some []))) (Some (compiledLiteral ''/api'')))
     ''/'' None PNAbsent \<and>
   \<not> isNestedRouter
     (Layer None (Some ''query'') (Some (Handler True None)) (Some (compiledLiteral ''/''))) \<and>
   isSpecialMiddleware
     (Layer None (Some ''query'') (Some (Handler True None)) (Some (compiledLiteral ''/''))) \<and>
   extractRoutesFromLayer
     (Layer None (Some ''query'') (Some (Handler True None)) (Some (compiledLiteral ''/'')))
     ''/'' None PNAbsent =
   extractRoutesFromSpecialMiddleware
     (Layer None (Some ''query'') (Some (Handler True None)) (Some (compiledLiteral ''/'')))
     ''/'' None PNAbsent \<and>
   \<not> isSpecialMiddleware (Layer None None (Some (Handler False None)) None) \<and>
   extractRoutesFromLayer (Layer None None (Some (Handler False None)) None)
     ''/'' None PNAbsent = Inr []"
  using
    classifier_first_match
      [of "Layer (Some \<lparr>rd_path = PString ''/users'', rd_methods = Some [(''get'', True)],
                        rd_stack = None\<rparr>)
             (Some ''bound dispatch'') (Some (Handler True None))
             (Some (compiledLiteral ''/users''))" "''/''" None PNAbsent]
    classifier_first_match
      [of "Layer None (Some ''router'') (Some (Handler True (Some [])))
             (Some (compiledLiteral ''/api''))" "''/''" None PNAbsent]
    classifier_first_match
      [of "Layer None (Some ''query'') (Some (Handler True None))
             (Some (compiledLiteral ''/''))" "''/''" None PNAbsent]
    classifier_first_match
      [of "Layer None None (Some (Handler False None)) None" "''/''" None PNAbsent]
  by (simp del: extractRoutesFromLayer.simps extractRoutesFromNestedRouter.simps
      extractRoutesFromSpecialMiddleware.simps extractRoutesFromRouteLayer.simps)

text \<open>
  A mounted sub-router as the framework builds it (the kind tag \<open>router\<close>, a callable
  handler with a node list, a compiled matcher) satisfies two of the predicates.
\<close>

theorem predicates_overlap:
  "isNestedRouter
     (Layer None (Some ''router'') (Some (Handler True (Some [])))
        (Some (compiledLiteral ''/api''))) \<and>
   isSpecialMiddleware
     (Layer None (Some ''router'') (Some (Handler True (Some [])))
        (Some (compiledLiteral ''/api'')))"
  by simp

section \<open>A sub-router with one terminal node\<close>

lemma combine_root_api: "combinePaths ''/'' (PString ''/api'') = ''/api''"
  by (simp add: combinePaths_def normalizeRoutePath_def startsWith_def endsWith_def
      mSlashes_def)

lemma combine_api_users: "combinePaths ''/api'' (PString ''/users'') = ''/api/users''"
  by (simp add: combinePaths_def normalizeRoutePath_def startsWith_def endsWith_def
      mSlashes_def)

lemma toUpperCase_get: "toUpperCase ''get'' = ''GET''"
  by (simp add: toUpperCase_def lowerLetters_def upperLetters_def)

lemma toUpperCase_post: "toUpperCase ''post'' = ''POST''"
  by (simp add: toUpperCase_def lowerLetters_def upperLetters_def)

text \<open>
  C10. A tree with one nested sub-router whose matcher decodes to \<open>/api\<close> and, inside
  it, one terminal node with the path fragment \<open>/users\<close>, the methods GET and POST and
  no middleware: discovery with the default configuration returns exactly two records,
  GET and POST, both with the path \<open>/api/users\<close>, unprotected, with the empty middleware
  list, and emits no warning.
\<close>

theorem scenario_api_users:
  assumes "extractBaseRoute (Some re) = ''/api''"
    and "st = None \<or> st = Some []"
  shows "extractRoutes
           (App (Some (Handler c0 (Some
              [Layer None (Some ''router'')
                 (Some (Handler c (Some
                    [Layer (Some \<lparr>rd_path = PString ''/users'',
                                   rd_methods = Some [(''get'', True), (''post'', True)],
                                   rd_stack = st\<rparr>) nm h rx])))
                 (Some re)]))))
           defaultConfig
         = ([], Inr [\<lparr>method = ''GET'', path = ''/api/users'', protected = False,
                       middlewares = []\<rparr>,
                     \<lparr>method = ''POST'', path = ''/api/users'', protected = False,
                       middlewares = []\<rparr>])"
  using assms
  by (auto simp: extractRoutes_def defaultConfig_def combine_root_api combine_api_users
      toUpperCase_get toUpperCase_post extractMiddlewares_def determineRouteProtection_def
      filterRoutes_def Let_def truthyString_def)

theorem scenario_api_users_witness:
  "extractBaseRoute (Some (''/^'' @ [BS] @ ''/api?/'')) = ''/api'' \<and>
   extractRoutes
           (App (Some (Handler True (Some
              [Layer None (Some ''router'')
                 (Some (Handler True (Some
                    [Layer (Some \<lparr>rd_path = PString ''/users'',
                                   rd_methods = Some [(''get'', True), (''post'', True)],
                                   rd_stack = Some []\<rparr>) None None None])))
                 (Some (''/^'' @ [BS] @ ''/api?/''))]))))
           defaultConfig
         = ([], Inr [\<lparr>method = ''GET'', path = ''/api/users'', protected = False,
                       middlewares = []\<rparr>,
                     \<lparr>method = ''POST'', path = ''/api/users'', protected = False,
                       middlewares = []\<rparr>])"
proof -
  have d: "extractBaseRoute (Some (''/^'' @ [BS] @ ''/api?/'')) = ''/api''"
    by (simp add: extractBaseRoute_def extractFastPathRoute_def truthyString_def
        mLit_def startsWith_def)
  have e: "Some [] = None \<or> Some [] = (Some [] :: stackEntry list option)"
    by simp
  from d scenario_api_users [OF d e, of True True None None None] show ?thesis
    by (rule conjI)
qed

section \<open>The examples of the repository's tests\<close>

text \<open>
  The expectations of the unit tests of the utilities, evaluated on the model: the
  decoder on the matchers of the tests, the table of the path combiner, the normalizer
  and the protection resolver.
\<close>

lemma test_extractBaseRoute_mount:
  "extractBaseRoute
     (Some (''/^'' @ [BS] @ ''/api'' @ [BS] @ ''/users'' @ [BS] @ ''/?(?='' @ [BS] @ ''/|$)/i''))
   = ''/api/users/''"
  by (simp add: extractBaseRoute_def extractFastPathRoute_def truthyString_def mLit_def
      startsWith_def)

lemma test_extractBaseRoute_root:
  "extractBaseRoute (Some (''/^'' @ [BS] @ ''/?$/i'')) = ''/''"
  by (simp add: extractBaseRoute_def extractFastPathRoute_def truthyString_def mLit_def
      startsWith_def)

lemma test_extractFastPathRoute:
  "extractFastPathRoute
     (''/^'' @ [BS] @ ''/products'' @ [BS] @ ''/categories'' @ [BS] @ ''/?('' @ [BS] @ ''?=''
        @ [BS] @ ''/|$)/i'')
   = Some ''/products/categories/''"
  by (simp add: extractFastPathRoute_def mLit_def startsWith_def)

lemma test_extractStandardRoute_optional_segment:
  "extractStandardRoute
     (''/^'' @ [BS] @ ''/api(?:'' @ [BS] @ ''/v1)?'' @ [BS] @ ''/?$/i'')
   = Some ''/api/''"
  by (simp add: extractStandardRoute_def standardStrip_def replaceStart_def mEndPattern_def
      mLitEnd_def mLit_def mNonCapturing_def mGroup_def mSlashes_def mCharIn_def
      regexSpecials_def startsWith_def Let_def)

lemma test_extractFallbackRoute:
  "extractFallbackRoute ''any-string'' = ''/'' \<and> extractFallbackRoute [] = ''/''"
  by (simp add: extractFallbackRoute_def)

lemma test_combinePaths:
  "combinePaths ''/api'' (PString ''/users'') = ''/api/users''"
  "combinePaths ''/api/'' (PString ''users'') = ''/api/users''"
  "combinePaths ''/api/'' (PString ''/users/'') = ''/api/users''"
  "combinePaths ''/'' (PString ''/'') = ''/''"
  "combinePaths [] (PString ''/users'') = ''/users''"
  "combinePaths ''/api'' (PString []) = ''/api''"
  "combinePaths ''/api///'' (PString ''///users'') = ''/api/users''"
  "combinePaths ''/////'' (PString ''/////'') = ''/''"
  by (simp_all add: combinePaths_def normalizeRoutePath_def startsWith_def endsWith_def
      mSlashes_def)

lemma test_normalizeRoutePath:
  "normalizeRoutePath (PString ''/users'') = ''/users''"
  "normalizeRoutePath (POther (Some ''/custom'')) = ''/custom''"
  "normalizeRoutePath (POther None) = ''/''"
  "normalizeRoutePath (POther (Some ''123'')) = ''/123''"
  "normalizeRoutePath
     (PRegExp (''/^'' @ [BS] @ ''/api'' @ [BS] @ ''/('' @ [BS] @ ''d+)'' @ [BS] @ ''/comments/''))
   = ''/^/api/:param/comments''"
  by (simp_all add: normalizeRoutePath_def stripDelimiters_def mFlagsEnd_def mLit_def
      mGroup_def truthyString_def startsWith_def Let_def)

lemma test_determineRouteProtection:
  "determineRouteProtection ''/api/users'' ''get''
     [Middleware (Some ''logger''), Middleware (Some ''requireAuth''),
      Middleware (Some ''validator'')] None (PNString ''requireAuth'') = True"
  "determineRouteProtection ''/api/users'' ''get''
     [Middleware (Some ''logger''), Middleware (Some ''requireAuth''),
      Middleware (Some ''validator'')] None (PNString ''notFound'') = False"
  "determineRouteProtection ''/api/users'' ''get''
     [Middleware (Some ''logger''), Middleware (Some ''validator''),
      Middleware (Some ''ensureAuthenticated'')] None PNAbsent = False"
  by (simp_all add: determineRouteProtection_def)

text \<open>
  The mount of the scenario as the framework compiles it decodes to \<open>/api/\<close>; the
  combiner drops the trailing separator, and the records are the same.
\<close>

lemma decode_compiled_api: "extractBaseRoute (Some (compiledLiteral ''/api'')) = ''/api/''"
  by (simp add: extractBaseRoute_def extractFastPathRoute_def truthyString_def
      compiledLiteral_def escapeSeparators_def mLit_def startsWith_def)

lemma combine_root_api_slash: "combinePaths ''/'' (PString ''/api/'') = ''/api''"
  by (simp add: combinePaths_def normalizeRoutePath_def startsWith_def endsWith_def
      mSlashes_def)

lemma scenario_compiled_mount:
  "extractRoutes
     (App (Some (Handler True (Some
        [Layer None (Some ''router'')
           (Some (Handler True (Some
              [Layer (Some \<lparr>rd_path = PString ''/users'',
                             rd_methods = Some [(''get'', True), (''post'', True)],
                             rd_stack = Some []\<rparr>) None None None])))
           (Some (compiledLiteral ''/api''))]))))
     defaultConfig
   = ([], Inr [\<lparr>method = ''GET'', path = ''/api/users'', protected = False,
                 middlewares = []\<rparr>,
               \<lparr>method = ''POST'', path = ''/api/users'', protected = False,
                 middlewares = []\<rparr>])"
  by (simp add: extractRoutes_def defaultConfig_def decode_compiled_api
      combine_root_api_slash combine_api_users
      toUpperCase_get toUpperCase_post extractMiddlewares_def determineRouteProtection_def
      filterRoutes_def Let_def truthyString_def)

text \<open>
  Two more scenarios of the spec: the terminal node carries a middleware named
  \<open>requireAuth\<close> and discovery is given that name; three nested mounts above one
  terminal node.
\<close>

lemma scenario_requireAuth:
  "extractRoutes
     (App (Some (Handler True (Some
        [Layer None (Some ''router'')
           (Some (Handler True (Some
              [Layer (Some \<lparr>rd_path = PString ''/users'',
                             rd_methods = Some [(''get'', True), (''post'', True)],
                             rd_stack = Some [\<lparr>se_handle = Some (Middleware (Some ''requireAuth'')),
                                               se_name = Some ''<anonymous>''\<rparr>]\<rparr>)
                 None None None])))
           (Some (compiledLiteral ''/api''))]))))
     (defaultConfig\<lparr>protectionMiddlewareName := PNString ''requireAuth''\<rparr>)
   = ([], Inr [\<lparr>method = ''GET'', path = ''/api/users'', protected = True,
                 middlewares = [Middleware (Some ''requireAuth'')]\<rparr>,
               \<lparr>method = ''POST'', path = ''/api/users'', protected = True,
                 middlewares = [Middleware (Some ''requireAuth'')]\<rparr>])"
  by (simp add: extractRoutes_def defaultConfig_def decode_compiled_api
      combine_root_api_slash combine_api_users
      toUpperCase_get toUpperCase_post extractMiddlewares_def determineRouteProtection_def
      filterRoutes_def Let_def truthyString_def)

lemma decode_levels:
  "extractBaseRoute (Some (compiledLiteral ''/l1'')) = ''/l1/''"
  "extractBaseRoute (Some (compiledLiteral ''/l2'')) = ''/l2/''"
  "extractBaseRoute (Some (compiledLiteral ''/l3'')) = ''/l3/''"
  by (simp_all add: extractBaseRoute_def extractFastPathRoute_def truthyString_def
      compiledLiteral_def escapeSeparators_def mLit_def startsWith_def)

lemma combine_levels:
  "combinePaths ''/'' (PString ''/l1/'') = ''/l1''"
  "combinePaths ''/l1'' (PString ''/l2/'') = ''/l1/l2''"
  "combinePaths ''/l1/l2'' (PString ''/l3/'') = ''/l1/l2/l3''"
  "combinePaths ''/l1/l2/l3'' (PString ''/deep'') = ''/l1/l2/l3/deep''"
  by (simp_all add: combinePaths_def normalizeRoutePath_def startsWith_def endsWith_def
      mSlashes_def)

lemma scenario_three_levels:
  "extractRoutes
     (App (Some (Handler True (Some
        [Layer None (Some ''router'')
           (Some (Handler True (Some
              [Layer None (Some ''router'')
                 (Some (Handler True (Some
                    [Layer None (Some ''router'')
                       (Some (Handler True (Some
                          [Layer (Some \<lparr>rd_path = PString ''/deep'',
                                         rd_methods = Some [(''get'', True)],
                                         rd_stack = None\<rparr>) None None None])))
                       (Some (compiledLiteral ''/l3''))])))
                 (Some (compiledLiteral ''/l2''))])))
           (Some (compiledLiteral ''/l1''))]))))
     defaultConfig
   = ([], Inr [\<lparr>method = ''GET'', path = ''/l1/l2/l3/deep'', protected = False,
                 middlewares = []\<rparr>])"
  by (simp add: extractRoutes_def defaultConfig_def decode_levels combine_levels
      toUpperCase_get extractMiddlewares_def determineRouteProtection_def
      filterRoutes_def Let_def truthyString_def)

end
